theory Spec2Isabelle
  imports Complex_Main "HOL-Library.Word"
begin

section \<open>Paws and Hugs: the pet adoption API of main.py\<close>

text \<open>
  The handlers of \<^verbatim>\<open>main.py\<close> are embedded as functions on an explicit store. A Python
  exception is a value \<open>Inl e\<close> of a sum type; the global \<^verbatim>\<open>db\<close> is a
  \<open>database option\<close> (\<open>None\<close> when the store is not configured); the calls a handler
  makes on the store are recorded in a list, so that "no lookup is issued" can be stated.
  Strings are \<open>char list\<close>: one \<open>char\<close> per character, letters folded in the ASCII range.
\<close>

subsection \<open>Errors\<close>

datatype error =
    HTTPException (status_code: nat) (detail: string)
  | InvalidId
  | ValidationError
  | OperationFailure

subsection \<open>Object identifiers\<close>

text \<open>
  \<^verbatim>\<open>bson.ObjectId(s)\<close> on a \<^verbatim>\<open>str\<close>: the string must have 24 characters and
  \<^verbatim>\<open>bytes.fromhex\<close> must accept it; anything else raises \<^verbatim>\<open>InvalidId\<close>.
  \<^verbatim>\<open>bytes.fromhex\<close> skips ASCII white space before a pair of hexadecimal digits.
  \<^verbatim>\<open>str(oid)\<close> is the lower-case hexadecimal text of the bytes.
\<close>

type_synonym byte = "8 word"
type_synonym oid = "byte list"

definition hexdigits :: string where
  "hexdigits = ''0123456789abcdef''"

definition hexdigit :: "nat \<Rightarrow> char" where
  "hexdigit n = hexdigits ! (n mod 16)"

fun hexlify :: "byte list \<Rightarrow> string" where
  "hexlify [] = []"
| "hexlify (b # bs) = hexdigit (unat b div 16) # hexdigit (unat b mod 16) # hexlify bs"

definition py_isspace :: "char \<Rightarrow> bool" where
  "py_isspace c = (c \<in> set [CHR '' '', CHR 0x09, CHR 0x0A, CHR 0x0B, CHR 0x0C, CHR 0x0D])"

definition hexval :: "char \<Rightarrow> nat option" where
  "hexval c =
     (let n = (of_char c :: nat) in
      if 48 \<le> n \<and> n \<le> 57 then Some (n - 48)
      else if 97 \<le> n \<and> n \<le> 102 then Some (n - 87)
      else if 65 \<le> n \<and> n \<le> 70 then Some (n - 55)
      else None)"

fun bytes_fromhex :: "string \<Rightarrow> byte list option" where
  "bytes_fromhex [] = Some []"
| "bytes_fromhex (c # cs) =
     (if py_isspace c then bytes_fromhex cs
      else case cs of
          [] \<Rightarrow> None
        | d # ds \<Rightarrow>
            (case (hexval c, hexval d) of
                (Some hi, Some lo) \<Rightarrow>
                  (case bytes_fromhex ds of
                      None \<Rightarrow> None
                    | Some bs \<Rightarrow> Some (word_of_nat (16 * hi + lo) # bs))
              | _ \<Rightarrow> None))"

definition ObjectId :: "string \<Rightarrow> error + oid" where
  "ObjectId s =
     (if length s = 24 then
        (case bytes_fromhex s of None \<Rightarrow> Inl InvalidId | Some bs \<Rightarrow> Inr bs)
      else Inl InvalidId)"

subsection \<open>Documents\<close>

text \<open>
  A stored document is a Python dict. Its \<^verbatim>\<open>_id\<close> is an ObjectId when present (the store
  assigns it); the other keys hold null, a boolean, a number or a string, in insertion order.
  Numbers are rationals: the code only passes them through. Arrays and nested documents do
  not occur in the values modelled.
\<close>

datatype val = VNone | VBool bool | VNum rat | VStr string | VOid oid

record document =
  doc_id :: "oid option"
  items :: "(string \<times> val) list"

definition doc_get :: "document \<Rightarrow> string \<Rightarrow> val option" where
  "doc_get d k = (if k = ''_id'' then map_option VOid (doc_id d) else map_of (items d) k)"

text \<open>Truth value of a dict (\<^verbatim>\<open>not pet\<close>): an empty dict is false.\<close>

definition dict_truthy :: "document \<Rightarrow> bool" where
  "dict_truthy d = (doc_id d \<noteq> None \<or> items d \<noteq> [])"

subsection \<open>Text matching\<close>

definition to_lower :: "char \<Rightarrow> char" where
  "to_lower c =
     (case map_of (zip ''ABCDEFGHIJKLMNOPQRSTUVWXYZ'' ''abcdefghijklmnopqrstuvwxyz'') c of
         Some l \<Rightarrow> l
       | None \<Rightarrow> c)"

fun starts_with :: "string \<Rightarrow> string \<Rightarrow> bool" where
  "starts_with s [] = True"
| "starts_with [] (p # ps) = False"
| "starts_with (c # cs) (p # ps) = (c = p \<and> starts_with cs ps)"

fun contains :: "string \<Rightarrow> string \<Rightarrow> bool" where
  "contains [] p = (p = [])"
| "contains (c # cs) p = (starts_with (c # cs) p \<or> contains cs p)"

definition ci_contains :: "string \<Rightarrow> string \<Rightarrow> bool" where
  "ci_contains s p = contains (map to_lower s) (map to_lower p)"

text \<open>
  The characters with a special meaning in a PCRE pattern. A pattern without any of them
  stands for itself: searching it is searching a substring.
\<close>

definition metachars :: string where
  "metachars = [CHR 0x5C, CHR ''^'', CHR ''$'', CHR ''.'', CHR ''['', CHR '']'', CHR ''|'',
                CHR ''('', CHR '')'', CHR ''?'', CHR ''*'', CHR ''+'', CHR ''{'', CHR ''}'']"

definition plain :: "string \<Rightarrow> bool" where
  "plain p = (\<forall>c \<in> set p. c \<notin> set metachars)"

subsection \<open>What the libraries decide\<close>

text \<open>
  Two libraries outside the repository decide cases that the code leaves to them. Each is a
  parameter, consulted only there:
  \<^item> pydantic, for a field value that is neither of the declared type nor null
    (its conversions differ between versions and modes);
  \<^item> the store's regular expression engine, for a pattern that contains a metacharacter:
    \<open>None\<close> when the engine refuses the pattern, else the search predicate on a subject.
\<close>

record runtime =
  lax_str :: "val \<Rightarrow> string option"
  lax_float :: "val \<Rightarrow> rat option"
  lax_bool :: "val \<Rightarrow> bool option"
  pcre :: "string \<Rightarrow> string \<Rightarrow> (string \<Rightarrow> bool) option"

definition regex_compile :: "runtime \<Rightarrow> string \<Rightarrow> string \<Rightarrow> (string \<Rightarrow> bool) option" where
  "regex_compile rt pat opts =
     (if plain pat \<and> opts = ''i'' then Some (\<lambda>s. ci_contains s pat)
      else if plain pat \<and> opts = [] then Some (\<lambda>s. contains s pat)
      else pcre rt pat opts)"

subsection \<open>Queries\<close>

text \<open>
  A query dict maps a key to a value to be equal to, or (key \<^verbatim>\<open>$or\<close>) to a list of
  alternatives \<^verbatim>\<open>{field: {"$regex": pattern, "$options": opts}}\<close>. All entries must hold.
\<close>

datatype cond = Eq val | Or "(string \<times> string \<times> string) list"

type_synonym query = "(string \<times> cond) list"

fun dict_set :: "string \<Rightarrow> 'v \<Rightarrow> (string \<times> 'v) list \<Rightarrow> (string \<times> 'v) list" where
  "dict_set k v [] = [(k, v)]"
| "dict_set k v ((k', v') # kvs) =
     (if k = k' then (k, v) # kvs else (k', v') # dict_set k v kvs)"

fun regex_holds :: "runtime \<Rightarrow> document \<Rightarrow> string \<times> string \<times> string \<Rightarrow> bool" where
  "regex_holds rt d (fld, pat, opts) =
     (case doc_get d fld of
         Some (VStr s) \<Rightarrow> (case regex_compile rt pat opts of Some m \<Rightarrow> m s | None \<Rightarrow> False)
       | _ \<Rightarrow> False)"

fun cond_holds :: "runtime \<Rightarrow> document \<Rightarrow> string \<times> cond \<Rightarrow> bool" where
  "cond_holds rt d (k, Eq v) =
     (if v = VNone then doc_get d k = None \<or> doc_get d k = Some VNone
      else doc_get d k = Some v)"
| "cond_holds rt d (k, Or alts) = (\<exists>a \<in> set alts. regex_holds rt d a)"

definition doc_matches :: "runtime \<Rightarrow> query \<Rightarrow> document \<Rightarrow> bool" where
  "doc_matches rt qry d = (\<forall>c \<in> set qry. cond_holds rt d c)"

fun cond_valid :: "runtime \<Rightarrow> string \<times> cond \<Rightarrow> bool" where
  "cond_valid rt (k, Eq v) = True"
| "cond_valid rt (k, Or alts) =
     (\<forall>(fld, pat, opts) \<in> set alts. regex_compile rt pat opts \<noteq> None)"

definition query_valid :: "runtime \<Rightarrow> query \<Rightarrow> bool" where
  "query_valid rt qry = (\<forall>c \<in> set qry. cond_valid rt c)"

subsection \<open>The store\<close>

text \<open>
  The database handle: its collections by name, each with its documents in insertion order.
  \<^verbatim>\<open>db[name]\<close> is the collection of that name, without documents when the store has none
  of that name. \<^verbatim>\<open>count_documents({})\<close> and \<^verbatim>\<open>find_one\<close> are the driver's calls that
  main.py makes itself.
\<close>

record database =
  tables :: "(string \<times> document list) list"

definition colls :: "database \<Rightarrow> string \<Rightarrow> document list" where
  "colls s coll = (case map_of (tables s) coll of None \<Rightarrow> [] | Some ds \<Rightarrow> ds)"

datatype store_call =
    CountDocuments string
  | FindOne string
  | Find string
  | InsertOne string

definition count_documents :: "database \<Rightarrow> string \<Rightarrow> nat" where
  "count_documents s coll = length (colls s coll)"

definition find_one :: "runtime \<Rightarrow> database \<Rightarrow> string \<Rightarrow> query \<Rightarrow> document option" where
  "find_one rt s coll qry = List.find (doc_matches rt qry) (colls s coll)"

fun be_bytes :: "nat \<Rightarrow> nat \<Rightarrow> byte list" where
  "be_bytes 0 n = []"
| "be_bytes (Suc k) n = be_bytes k (n div 256) @ [word_of_nat (n mod 256)]"

text \<open>
  An identifier read as a number, most significant byte first, and the identifier of a
  number: its 12 bytes, or more bytes when 12 cannot hold it, so that two numbers never
  share an identifier.
\<close>

definition oid_nat :: "oid \<Rightarrow> nat" where
  "oid_nat bs = foldl (\<lambda>a b. a * 256 + unat b) 0 bs"

definition oid_of_nat :: "nat \<Rightarrow> oid" where
  "oid_of_nat n = (if n < 2 ^ 96 then be_bytes 12 n else be_bytes (Suc n) n)"

definition used_ids :: "database \<Rightarrow> oid list" where
  "used_ids s = concat (map (\<lambda>(c, ds). List.map_filter doc_id ds) (tables s))"

text \<open>
  Modelled from the spec: the identifier that the store assigns, in the module
  \<^verbatim>\<open>database\<close> and the driver under it, which are not among the sources. The spec's
  invariant is that an identifier is unique and assigned by the store at creation time: the
  store takes the number after the greatest one among the identifiers of its documents.
\<close>

definition new_oid :: "database \<Rightarrow> oid" where
  "new_oid s = oid_of_nat (fold (\<lambda>i n. max n (Suc (oid_nat i))) (used_ids s) 0)"

text \<open>
  Modelled from the spec: \<^verbatim>\<open>create_document\<close> of the module \<^verbatim>\<open>database\<close>, which is not
  among the sources. The spec gives the store insert-one, which assigns the new document an
  identifier of its own and returns it. The identifier is returned as text, as the response
  needs it.
\<close>

definition create_document ::
  "database \<Rightarrow> string \<Rightarrow> (string \<times> val) list \<Rightarrow> string \<times> database" where
  "create_document s coll data =
     (let i = new_oid s;
          d = \<lparr>doc_id = Some i, items = data\<rparr>
      in (hexlify i, s\<lparr>tables := dict_set coll (colls s coll @ [d]) (tables s)\<rparr>))"

text \<open>
  Modelled from the spec: \<^verbatim>\<open>get_documents\<close> of the module \<^verbatim>\<open>database\<close>, which is not
  among the sources. The spec gives the store find-many-by-predicate: the documents of the
  collection that satisfy the query, in the store's order. A query with a pattern that the
  engine refuses fails as a whole.
\<close>

definition get_documents :: "runtime \<Rightarrow> database \<Rightarrow> string \<Rightarrow> query \<Rightarrow> error + document list" where
  "get_documents rt s coll qry =
     (if query_valid rt qry then Inr (filter (doc_matches rt qry) (colls s coll))
      else Inl OperationFailure)"

subsection \<open>POST /api/adopt\<close>

text \<open>
  The request body, already validated by the framework: \<^verbatim>\<open>pet_id\<close> and the other fields of
  the schema \<^verbatim>\<open>Adoptionrequest\<close> (declared outside the sources), kept as they come.
\<close>

record adoptionrequest =
  pet_id :: string
  requester :: "(string \<times> val) list"

definition model_dump :: "adoptionrequest \<Rightarrow> (string \<times> val) list" where
  "model_dump req = (''pet_id'', VStr (pet_id req)) # requester req"

record adopt_response =
  adopt_message :: string
  request_id :: string

record 'a outcome =
  result :: "error + 'a"
  db_after :: "database option"
  calls :: "store_call list"

definition create_adoption_request ::
  "runtime \<Rightarrow> database option \<Rightarrow> adoptionrequest \<Rightarrow> adopt_response outcome" where
  "create_adoption_request rt db req =
     (case db of
         None \<Rightarrow>
           \<lparr>result = Inl (HTTPException 500 ''Database not configured''),
            db_after = db, calls = []\<rparr>
       | Some s \<Rightarrow>
           (case ObjectId (pet_id req) of
               Inl e \<Rightarrow>
                 \<lparr>result = Inl (HTTPException 400 ''Invalid pet ID''),
                  db_after = db, calls = []\<rparr>
             | Inr i \<Rightarrow>
                 (let pet = find_one rt s ''pet'' [(''_id'', Eq (VOid i))] in
                  if \<not> (case pet of None \<Rightarrow> False | Some d \<Rightarrow> dict_truthy d) then
                    \<lparr>result = Inl (HTTPException 404 ''Pet not found''),
                     db_after = db, calls = [FindOne ''pet'']\<rparr>
                  else
                    (let (req_id, s') = create_document s ''adoptionrequest'' (model_dump req) in
                     \<lparr>result = Inr \<lparr>adopt_message = ''Request received'', request_id = req_id\<rparr>,
                      db_after = Some s',
                      calls = [FindOne ''pet'', InsertOne ''adoptionrequest'']\<rparr>))))"

subsection \<open>The public view of a pet\<close>

text \<open>
  \<^verbatim>\<open>PetOut\<close> is a pydantic model: constructing it validates every field against its
  declared type. A value of the declared type is taken as it is; null is accepted only by
  the \<^verbatim>\<open>Optional\<close> fields; for any other value pydantic converts or refuses, which is the
  parameter. The fields \<^verbatim>\<open>id\<close> and \<^verbatim>\<open>size\<close> carry a prime here.
\<close>

record PetOut =
  id' :: string
  name :: string
  species :: string
  age_years :: rat
  gender :: string
  size' :: string
  description :: "string option"
  photo_url :: "string option"
  location :: "string option"
  is_adopted :: bool

definition bind_err :: "error + 'a \<Rightarrow> ('a \<Rightarrow> error + 'b) \<Rightarrow> error + 'b" where
  "bind_err x f = (case x of Inl e \<Rightarrow> Inl e | Inr a \<Rightarrow> f a)"

definition of_lax :: "'a option \<Rightarrow> error + 'a" where
  "of_lax x = (case x of None \<Rightarrow> Inl ValidationError | Some a \<Rightarrow> Inr a)"

fun validate_str :: "runtime \<Rightarrow> val \<Rightarrow> error + string" where
  "validate_str rt (VStr s) = Inr s"
| "validate_str rt VNone = Inl ValidationError"
| "validate_str rt v = of_lax (lax_str rt v)"

fun validate_opt_str :: "runtime \<Rightarrow> val \<Rightarrow> error + string option" where
  "validate_opt_str rt (VStr s) = Inr (Some s)"
| "validate_opt_str rt VNone = Inr None"
| "validate_opt_str rt v = of_lax (map_option Some (lax_str rt v))"

fun validate_float :: "runtime \<Rightarrow> val \<Rightarrow> error + rat" where
  "validate_float rt (VNum r) = Inr r"
| "validate_float rt VNone = Inl ValidationError"
| "validate_float rt v = of_lax (lax_float rt v)"

fun validate_bool :: "runtime \<Rightarrow> val \<Rightarrow> error + bool" where
  "validate_bool rt (VBool b) = Inr b"
| "validate_bool rt VNone = Inl ValidationError"
| "validate_bool rt v = of_lax (lax_bool rt v)"

text \<open>\<^verbatim>\<open>doc.get(k)\<close> and \<^verbatim>\<open>doc.get(k, default)\<close>.\<close>

definition get_or :: "document \<Rightarrow> string \<Rightarrow> val \<Rightarrow> val" where
  "get_or d k dflt = (case doc_get d k of None \<Rightarrow> dflt | Some v \<Rightarrow> v)"

text \<open>\<^verbatim>\<open>str(doc.get("_id"))\<close>: the text of the identifier, or of \<^verbatim>\<open>None\<close>.\<close>

definition str_id :: "document \<Rightarrow> string" where
  "str_id d = (case doc_id d of None \<Rightarrow> ''None'' | Some i \<Rightarrow> hexlify i)"

definition from_mongo :: "runtime \<Rightarrow> document \<Rightarrow> error + PetOut" where
  "from_mongo rt doc =
     bind_err (validate_str rt (get_or doc ''name'' VNone)) (\<lambda>n.
     bind_err (validate_str rt (get_or doc ''species'' VNone)) (\<lambda>sp.
     bind_err (validate_float rt (get_or doc ''age_years'' VNone)) (\<lambda>a.
     bind_err (validate_str rt (get_or doc ''gender'' VNone)) (\<lambda>g.
     bind_err (validate_str rt (get_or doc ''size'' VNone)) (\<lambda>sz.
     bind_err (validate_opt_str rt (get_or doc ''description'' VNone)) (\<lambda>de.
     bind_err (validate_opt_str rt (get_or doc ''photo_url'' VNone)) (\<lambda>ph.
     bind_err (validate_opt_str rt (get_or doc ''location'' VNone)) (\<lambda>lo.
     bind_err (validate_bool rt (get_or doc ''is_adopted'' (VBool False))) (\<lambda>ad.
     Inr \<lparr>id' = str_id doc, name = n, species = sp, age_years = a, gender = g,
          size' = sz, description = de, photo_url = ph, location = lo,
          is_adopted = ad\<rparr>)))))))))"

subsection \<open>GET /api/pets\<close>

text \<open>
  The query parameters \<^verbatim>\<open>species\<close>, \<^verbatim>\<open>size\<close> and \<^verbatim>\<open>q\<close> are \<open>sp\<close>, \<open>sz\<close> and \<open>q\<close>
  here. A test such as \<^verbatim>\<open>if species:\<close> on an optional string is false when the string is
  absent and when it is empty. \<^verbatim>\<open>list_pets\<close> does not test \<^verbatim>\<open>db\<close> itself, and neither the
  sources nor the spec say what \<^verbatim>\<open>get_documents\<close> does without a store: the handler is
  modelled on a configured store.
\<close>

definition given :: "string option \<Rightarrow> bool" where
  "given x = (case x of None \<Rightarrow> False | Some s \<Rightarrow> s \<noteq> [])"

definition filter_q :: "string option \<Rightarrow> string option \<Rightarrow> string option \<Rightarrow> query" where
  "filter_q sp sz q =
     (let f0 = [(''is_adopted'', Eq (VBool False))];
          f1 = (if given sp then dict_set ''species'' (Eq (VStr (the sp))) f0 else f0);
          f2 = (if given sz then dict_set ''size'' (Eq (VStr (the sz))) f1 else f1);
          f3 = (if given q then
                  dict_set ''$or''
                    (Or [(''name'', the q, ''i''),
                         (''description'', the q, ''i''),
                         (''location'', the q, ''i'')]) f2
                else f2)
      in f3)"

fun from_mongo_all :: "runtime \<Rightarrow> document list \<Rightarrow> error + PetOut list" where
  "from_mongo_all rt [] = Inr []"
| "from_mongo_all rt (d # ds) =
     bind_err (from_mongo rt d) (\<lambda>p.
     bind_err (from_mongo_all rt ds) (\<lambda>ps. Inr (p # ps)))"

definition list_pets ::
  "runtime \<Rightarrow> database \<Rightarrow> string option \<Rightarrow> string option \<Rightarrow> string option \<Rightarrow> error + PetOut list" where
  "list_pets rt s sp sz q =
     bind_err (get_documents rt s ''pet'' (filter_q sp sz q)) (\<lambda>docs.
     from_mongo_all rt docs)"

subsection \<open>POST /seed\<close>

definition sample_pets :: "(string \<times> val) list list" where
  "sample_pets =
     [[(''name'', VStr ''Mocha''),
       (''species'', VStr ''Dog''),
       (''age_years'', VNum (3 / 2)),
       (''gender'', VStr ''Female''),
       (''size'', VStr ''Small''),
       (''description'', VStr ''Sweet, snuggly pup who loves belly rubs.''),
       (''photo_url'', VStr ''https://images.unsplash.com/photo-1543466835-00a7907e9de1?w=900&q=80&auto=format&fit=crop''),
       (''location'', VStr ''Sunnyvale Shelter''),
       (''is_adopted'', VBool False)],
      [(''name'', VStr ''Miso''),
       (''species'', VStr ''Cat''),
       (''age_years'', VNum 3),
       (''gender'', VStr ''Male''),
       (''size'', VStr ''Small''),
       (''description'', VStr ''Calm lap cat, purr motor included.''),
       (''photo_url'', VStr ''https://images.unsplash.com/photo-1518791841217-8f162f1e1131?w=900&q=80&auto=format&fit=crop''),
       (''location'', VStr ''Palo Alto Rescue''),
       (''is_adopted'', VBool False)],
      [(''name'', VStr ''Taro''),
       (''species'', VStr ''Rabbit''),
       (''age_years'', VNum 2),
       (''gender'', VStr ''Female''),
       (''size'', VStr ''Small''),
       (''description'', VStr ''Gentle bun who loves leafy greens.''),
       (''photo_url'', VStr ''https://images.unsplash.com/photo-1548767797-d8c844163c4c?w=900&q=80&auto=format&fit=crop''),
       (''location'', VStr ''Mountain View Haven''),
       (''is_adopted'', VBool False)]]"

record seed_response =
  seed_message :: string
  seed_count :: nat

text \<open>The loop \<^verbatim>\<open>for p in sample_pets: create_document("pet", p)\<close>.\<close>

fun create_each ::
  "database \<Rightarrow> string \<Rightarrow> (string \<times> val) list list \<Rightarrow> database \<times> store_call list" where
  "create_each s coll [] = (s, [])"
| "create_each s coll (p # ps) =
     (let (i, s') = create_document s coll p;
          (s'', cs) = create_each s' coll ps
      in (s'', InsertOne coll # cs))"

definition seed_pets :: "database option \<Rightarrow> seed_response outcome" where
  "seed_pets db =
     (case db of
         None \<Rightarrow>
           \<lparr>result = Inl (HTTPException 500 ''Database not configured''),
            db_after = db, calls = []\<rparr>
       | Some s \<Rightarrow>
           (let count = count_documents s ''pet'' in
            if count > 0 then
              \<lparr>result = Inr \<lparr>seed_message = ''Already seeded'', seed_count = count\<rparr>,
               db_after = db, calls = [CountDocuments ''pet'']\<rparr>
            else
              (let (s', cs) = create_each s ''pet'' sample_pets in
               \<lparr>result = Inr \<lparr>seed_message = ''Seeded'', seed_count = length sample_pets\<rparr>,
                db_after = Some s', calls = CountDocuments ''pet'' # cs\<rparr>)))"

subsection \<open>GET /test\<close>

text \<open>
  The texts of the report hold characters outside ASCII, and \<^verbatim>\<open>str(e)[:50]\<close> counts
  characters: here a text is the list of its code points. The body mutates the dict
  \<^verbatim>\<open>response\<close> in place, so a statement yields the dict and the exception it raised, if
  any: what was written before a \<^verbatim>\<open>raise\<close> stays written.
\<close>

type_synonym ustr = "nat list"

definition ascii :: "string \<Rightarrow> ustr" where
  "ascii s = map of_char s"

definition check_mark :: ustr where
  "check_mark = [0x2705]"

definition cross_mark :: ustr where
  "cross_mark = [0x274C]"

definition warning_sign :: ustr where
  "warning_sign = [0x26A0, 0xFE0F]"

datatype exn = Exception (str: ustr)

datatype attr_result = Attr ustr | NoAttr | AttrRaises exn

text \<open>
  What the driver answers for the handle in a given state: the attribute \<^verbatim>\<open>name\<close> and the
  call \<^verbatim>\<open>list_collection_names()\<close>, each of which may raise.
\<close>

record driver =
  getattr_name :: "database \<Rightarrow> attr_result"
  list_collection_names :: "database \<Rightarrow> exn + ustr list"

record status_report =
  backend :: ustr
  database :: ustr
  database_url :: "ustr option"
  database_name :: "ustr option"
  connection_status :: ustr
  collections :: "ustr list"

type_synonym exec = "status_report \<times> exn option"

definition try_except :: "exec \<Rightarrow> (exn \<Rightarrow> status_report \<Rightarrow> exec) \<Rightarrow> exec" where
  "try_except body handler =
     (case body of (r, None) \<Rightarrow> (r, None) | (r, Some e) \<Rightarrow> handler e r)"

definition probe_collections :: "driver \<Rightarrow> database \<Rightarrow> status_report \<Rightarrow> exec" where
  "probe_collections drv s r =
     (case list_collection_names drv s of
         Inl e \<Rightarrow> (r, Some e)
       | Inr cs \<Rightarrow>
           (r\<lparr>collections := take 10 cs,
              database := check_mark @ ascii '' Connected & Working''\<rparr>, None))"

definition probe_db :: "driver \<Rightarrow> database option \<Rightarrow> status_report \<Rightarrow> exec" where
  "probe_db drv db r =
     (case db of
         None \<Rightarrow> (r\<lparr>database := warning_sign @ ascii ''  Available but not initialized''\<rparr>, None)
       | Some s \<Rightarrow>
           (let r1 = r\<lparr>database := check_mark @ ascii '' Available'',
                       database_url := Some (check_mark @ ascii '' Configured'')\<rparr>
            in case getattr_name drv s of
                 AttrRaises e \<Rightarrow> (r1, Some e)
               | a \<Rightarrow>
                   (let r2 = r1\<lparr>database_name :=
                                 Some (case a of Attr n \<Rightarrow> n
                                       | _ \<Rightarrow> check_mark @ ascii '' Connected''),
                               connection_status := ascii ''Connected''\<rparr>
                    in try_except (probe_collections drv s r2)
                         (\<lambda>e r. (r\<lparr>database := warning_sign @ ascii ''  Connected but Error: ''
                                                  @ take 50 (str e)\<rparr>, None)))))"

definition getenv_set :: "(string \<Rightarrow> ustr option) \<Rightarrow> string \<Rightarrow> bool" where
  "getenv_set env k = (case env k of None \<Rightarrow> False | Some v \<Rightarrow> v \<noteq> [])"

definition test_database ::
  "driver \<Rightarrow> (string \<Rightarrow> ustr option) \<Rightarrow> database option \<Rightarrow> exec" where
  "test_database drv env db =
     (let response =
            \<lparr>backend = check_mark @ ascii '' Running'',
             database = cross_mark @ ascii '' Not Available'',
             database_url = None,
             database_name = None,
             connection_status = ascii ''Not Connected'',
             collections = []\<rparr>
      in case try_except (probe_db drv db response)
                (\<lambda>e r. (r\<lparr>database := cross_mark @ ascii '' Error: '' @ take 50 (str e)\<rparr>, None))
         of (r, Some e) \<Rightarrow> (r, Some e)
          | (r, None) \<Rightarrow>
              (r\<lparr>database_url :=
                    Some (if getenv_set env ''DATABASE_URL'' then check_mark @ ascii '' Set''
                          else cross_mark @ ascii '' Not Set''),
                  database_name :=
                    Some (if getenv_set env ''DATABASE_NAME'' then check_mark @ ascii '' Set''
                          else cross_mark @ ascii '' Not Set'')\<rparr>, None))"

subsection \<open>Sample data\<close>

text \<open>
  An instance of the library parameters: pydantic refusing every value that is not of the
  declared type, and a regular expression engine for patterns made of literal characters
  and the dot (any character but a newline), letters compared without case.
\<close>

fun dot_starts :: "string \<Rightarrow> string \<Rightarrow> bool" where
  "dot_starts s [] = True"
| "dot_starts [] (p # ps) = False"
| "dot_starts (c # cs) (p # ps) =
     ((if p = CHR ''.'' then c \<noteq> CHR 0x0A else to_lower c = to_lower p) \<and> dot_starts cs ps)"

fun dot_search :: "string \<Rightarrow> string \<Rightarrow> bool" where
  "dot_search [] p = (p = [])"
| "dot_search (c # cs) p = (dot_starts (c # cs) p \<or> dot_search cs p)"

definition pcre_dot :: "string \<Rightarrow> string \<Rightarrow> (string \<Rightarrow> bool) option" where
  "pcre_dot pat opts =
     (if opts = ''i'' \<and> (\<forall>c \<in> set pat. c = CHR ''.'' \<or> c \<notin> set metachars)
      then Some (\<lambda>s. dot_search s pat) else None)"

definition strict_rt :: runtime where
  "strict_rt = \<lparr>lax_str = (\<lambda>v. None), lax_float = (\<lambda>v. None), lax_bool = (\<lambda>v. None),
                pcre = pcre_dot\<rparr>"

definition rex :: document where
  "rex = \<lparr>doc_id = Some [0, 0, 0, 0, 0, 0, 0, 0, 0, 0, 0, 0],
          items = [(''name'', VStr ''Rex''), (''species'', VStr ''Dog''),
                   (''age_years'', VNum 4), (''gender'', VStr ''Male''),
                   (''size'', VStr ''Large''), (''is_adopted'', VBool False)]\<rparr>"

definition luna :: document where
  "luna = \<lparr>doc_id = Some [0, 0, 0, 0, 0, 0, 0, 0, 0, 0, 0, 1],
           items = [(''name'', VStr ''Luna''), (''species'', VStr ''Cat''),
                    (''age_years'', VNum 7), (''gender'', VStr ''Female''),
                    (''size'', VStr ''Small''), (''location'', VStr ''Palo Alto Rescue''),
                    (''is_adopted'', VBool True)]\<rparr>"

definition nameless :: document where
  "nameless = \<lparr>doc_id = Some [0, 0, 0, 0, 0, 0, 0, 0, 0, 0, 0, 2],
               items = [(''species'', VStr ''Dog''), (''age_years'', VNum 1),
                        (''gender'', VStr ''Male''), (''size'', VStr ''Small''),
                        (''is_adopted'', VBool False)]\<rparr>"

definition shelter :: database where
  "shelter = \<lparr>tables = [(''pet'', [rex, luna])]\<rparr>"

definition empty_db :: database where
  "empty_db = \<lparr>tables = []\<rparr>"

definition down_driver :: driver where
  "down_driver =
     \<lparr>getattr_name = (\<lambda>s. Attr (ascii ''paws'')),
      list_collection_names =
        (\<lambda>s. Inl (Exception (ascii
           ''localhost:27017: [Errno 111] Connection refused, Timeout: 30s, Topology Description'')))\<rparr>"

definition broken_driver :: driver where
  "broken_driver =
     \<lparr>getattr_name = (\<lambda>s. AttrRaises (Exception (ascii ''handle closed''))),
      list_collection_names = (\<lambda>s. Inr [])\<rparr>"

definition no_env :: "string \<Rightarrow> ustr option" where
  "no_env k = None"

definition rex_out :: PetOut where
  "rex_out = \<lparr>id' = ''000000000000000000000000'', name = ''Rex'', species = ''Dog'',
              age_years = 4, gender = ''Male'', size' = ''Large'', description = None,
              photo_url = None, location = None, is_adopted = False\<rparr>"

subsection \<open>Fields as the view shows them\<close>

text \<open>
  For stating what \<^verbatim>\<open>from_mongo\<close> returns: an optional text field is absent, null or a
  string, and shows as the string or as null; the flag \<^verbatim>\<open>is_adopted\<close> is absent or a
  boolean, and shows as false when absent.
\<close>

definition optional_text :: "val option \<Rightarrow> bool" where
  "optional_text v =
     (case v of None \<Rightarrow> True | Some VNone \<Rightarrow> True | Some (VStr s) \<Rightarrow> True | _ \<Rightarrow> False)"

definition text_of :: "val option \<Rightarrow> string option" where
  "text_of v = (case v of Some (VStr s) \<Rightarrow> Some s | _ \<Rightarrow> None)"

definition optional_flag :: "val option \<Rightarrow> bool" where
  "optional_flag v = (case v of None \<Rightarrow> True | Some (VBool b) \<Rightarrow> True | _ \<Rightarrow> False)"

definition flag_of :: "val option \<Rightarrow> bool" where
  "flag_of v = (case v of Some (VBool b) \<Rightarrow> b | _ \<Rightarrow> False)"

section \<open>Properties\<close>

subsection \<open>Identifiers: text and number\<close>

lemma hexdigit_cases:
  assumes "n < 16"
  shows "hexval (hexdigit n) = Some n \<and> \<not> py_isspace (hexdigit n)"
proof -
  have "\<forall>n \<in> set [0..<16]. hexval (hexdigit n) = Some n \<and> \<not> py_isspace (hexdigit n)"
    by code_simp
  with assms show ?thesis by simp
qed

lemma byte_split: "word_of_nat (16 * (unat b div 16) + unat b mod 16) = (b :: byte)"
proof -
  have "16 * (unat b div 16) + unat b mod 16 = unat b" by presburger
  then show ?thesis by simp
qed

lemma byte_hi: "unat (b :: byte) div 16 < 16"
proof -
  have "unat b < 2 ^ LENGTH(8)" by (rule unsigned_less)
  then have "unat b < 256" by simp
  then show ?thesis by presburger
qed

lemma unat_byte_mod: "unat (word_of_nat (n mod 256) :: byte) = n mod 256"
  by (simp add: unat_of_nat)

lemma fromhex_hexlify: "bytes_fromhex (hexlify bs) = Some bs"
proof (induction bs)
  case Nil
  show ?case by simp
next
  case (Cons b bs)
  have hi: "hexval (hexdigit (unat b div 16)) = Some (unat b div 16)"
    and sp: "\<not> py_isspace (hexdigit (unat b div 16))"
    using hexdigit_cases [OF byte_hi [of b]] by simp_all
  have lo: "hexval (hexdigit (unat b mod 16)) = Some (unat b mod 16)"
    using hexdigit_cases [of "unat b mod 16"] by simp
  show ?case
    by (simp only: hexlify.simps bytes_fromhex.simps sp if_False list.case hi lo
          prod.case option.case Cons.IH byte_split)
qed

lemma length_hexlify: "length (hexlify bs) = 2 * length bs"
  by (induction bs) simp_all

lemma length_be_bytes: "length (be_bytes k n) = k"
  by (induction k arbitrary: n) simp_all

lemma ObjectId_hexlify:
  assumes "length bs = 12"
  shows "ObjectId (hexlify bs) = Inr bs"
proof -
  have "length (hexlify bs) = 24"
    by (simp only: length_hexlify assms)
  then show ?thesis
    by (simp add: ObjectId_def fromhex_hexlify)
qed

lemma hexlify_inj:
  assumes "hexlify a = hexlify b"
  shows "a = b"
proof -
  have "Some a = bytes_fromhex (hexlify a)" by (simp only: fromhex_hexlify)
  also have "\<dots> = Some b" by (simp only: assms fromhex_hexlify)
  finally show ?thesis by (simp only: option.inject)
qed

lemma oid_nat_append: "oid_nat (bs @ [b]) = 256 * oid_nat bs + unat b"
  by (simp add: oid_nat_def)

lemma oid_nat_be_bytes: "oid_nat (be_bytes k n) = n mod 256 ^ k"
proof (induction k arbitrary: n)
  case 0
  show ?case by (simp add: oid_nat_def)
next
  case (Suc k)
  have "oid_nat (be_bytes (Suc k) n) = 256 * ((n div 256) mod 256 ^ k) + n mod 256"
    by (simp only: be_bytes.simps oid_nat_append Suc.IH unat_byte_mod)
  also have "\<dots> = n mod (256 * 256 ^ k)"
    by (rule mod_mult2_eq [symmetric])
  finally show ?case by (simp only: power_Suc)
qed

lemma oid_nat_oid_of_nat: "oid_nat (oid_of_nat n) = n"
proof (cases "n < 2 ^ 96")
  case True
  have "(256::nat) ^ 12 = 2 ^ 96" by simp
  with True have "n mod 256 ^ 12 = n" by (simp only: mod_less)
  with True show ?thesis by (simp only: oid_of_nat_def oid_nat_be_bytes if_True)
next
  case False
  have "n < 2 ^ n" by (rule less_exp)
  also have "(2::nat) ^ n \<le> 256 ^ n" by (rule power_mono) simp_all
  also have "(256::nat) ^ n \<le> 256 ^ Suc n" by (rule power_increasing) simp_all
  finally have "n mod 256 ^ Suc n = n" by (rule mod_less)
  with False show ?thesis by (simp only: oid_of_nat_def oid_nat_be_bytes if_False)
qed

lemma oid_of_nat_not_Nil: "oid_of_nat n \<noteq> []"
proof (cases "n < 2 ^ 96")
  case True
  then have "length (oid_of_nat n) = 12"
    by (simp only: oid_of_nat_def if_True length_be_bytes)
  then show ?thesis by auto
next
  case False
  then have "length (oid_of_nat n) = Suc n"
    by (simp only: oid_of_nat_def if_False length_be_bytes)
  then show ?thesis by auto
qed

lemma fold_max_ge: "m \<le> fold (\<lambda>i n. max n (Suc (oid_nat i))) xs m"
proof (induction xs arbitrary: m)
  case Nil
  show ?case by simp
next
  case (Cons x xs)
  have "m \<le> max m (Suc (oid_nat x))" by simp
  also have "\<dots> \<le> fold (\<lambda>i n. max n (Suc (oid_nat i))) xs (max m (Suc (oid_nat x)))"
    by (rule Cons.IH)
  finally show ?case by simp
qed

lemma fold_max_gt:
  "i \<in> set xs \<Longrightarrow> oid_nat i < fold (\<lambda>i n. max n (Suc (oid_nat i))) xs m"
proof (induction xs arbitrary: m)
  case Nil
  then show ?case by simp
next
  case (Cons x xs)
  show ?case
  proof (cases "i = x")
    case True
    have "oid_nat x < max m (Suc (oid_nat x))" by simp
    also have "\<dots> \<le> fold (\<lambda>i n. max n (Suc (oid_nat i))) xs (max m (Suc (oid_nat x)))"
      by (rule fold_max_ge)
    finally show ?thesis using True by simp
  next
    case False
    with Cons.prems have "i \<in> set xs" by simp
    from Cons.IH [OF this] show ?thesis by simp
  qed
qed

lemma used_idsI:
  assumes "d \<in> set (colls s c)" and "doc_id d = Some i"
  shows "i \<in> set (used_ids s)"
proof -
  obtain ds where t: "map_of (tables s) c = Some ds" and d: "d \<in> set ds"
  proof (cases "map_of (tables s) c")
    case None
    with assms(1) show ?thesis by (simp add: colls_def)
  next
    case (Some ds)
    with assms(1) have "d \<in> set ds" by (simp add: colls_def)
    with Some show ?thesis by (rule that)
  qed
  from t have "(c, ds) \<in> set (tables s)" by (rule map_of_SomeD)
  moreover from d assms(2) have "i \<in> set (List.map_filter doc_id ds)"
    by (auto simp: List.map_filter_def intro!: image_eqI [where x = d])
  ultimately show ?thesis
    by (auto simp: used_ids_def intro!: bexI [where x = "(c, ds)"])
qed

lemma new_oid_fresh:
  assumes "d \<in> set (colls s c)" and "doc_id d = Some i"
  shows "new_oid s \<noteq> i"
proof
  assume eq: "new_oid s = i"
  from fold_max_gt [OF used_idsI [OF assms], of 0]
  have "oid_nat i < oid_nat (new_oid s)"
    by (simp only: new_oid_def oid_nat_oid_of_nat)
  with eq show False by simp
qed

lemma map_of_dict_set:
  "map_of (dict_set k v kvs) k' = (if k' = k then Some v else map_of kvs k')"
  by (induction kvs) auto

lemma colls_create_document:
  "colls (snd (create_document s c p)) c' =
     (if c' = c then colls s c @ [\<lparr>doc_id = Some (new_oid s), items = p\<rparr>] else colls s c')"
  by (simp add: create_document_def Let_def colls_def map_of_dict_set)

lemma fst_create_document: "fst (create_document s c p) = hexlify (new_oid s)"
  by (simp add: create_document_def Let_def)

lemma colls_shelter: "colls shelter c = (if c = ''pet'' then [rex, luna] else [])"
  by (simp add: colls_def shelter_def)

lemma colls_empty_db: "colls empty_db c = []"
  by (simp add: colls_def empty_db_def)

subsection \<open>Looking a pet up by its identifier\<close>

lemma doc_matches_id:
  "doc_matches rt [(''_id'', Eq (VOid i))] d = (doc_id d = Some i)"
  by (auto simp: doc_matches_def doc_get_def)

lemma find_one_id:
  "find_one rt s coll [(''_id'', Eq (VOid i))] =
     List.find (\<lambda>d. doc_id d = Some i) (colls s coll)"
proof -
  have "doc_matches rt [(''_id'', Eq (VOid i))] = (\<lambda>d. doc_id d = Some i)"
    by (rule ext) (rule doc_matches_id)
  then show ?thesis by (simp add: find_one_def)
qed

lemma find_id_None:
  "(List.find (\<lambda>d. doc_id d = Some i) ds = None) = (\<forall>d \<in> set ds. doc_id d \<noteq> Some i)"
  by (auto simp: find_None_iff)

lemma find_id_Some:
  "List.find (\<lambda>d. doc_id d = Some i) ds = Some d \<Longrightarrow> d \<in> set ds \<and> doc_id d = Some i"
  by (auto simp: find_Some_iff)

lemma ObjectId_sample_9:
  "ObjectId ''000000000000000000000009'' = Inr [0, 0, 0, 0, 0, 0, 0, 0, 0, 0, 0, 9]"
  by (simp add: ObjectId_def py_isspace_def hexval_def)

lemma ObjectId_sample_1:
  "ObjectId ''000000000000000000000001'' = Inr [0, 0, 0, 0, 0, 0, 0, 0, 0, 0, 0, 1]"
  by (simp add: ObjectId_def py_isspace_def hexval_def)

subsection \<open>The claims on POST /api/adopt\<close>

text \<open>
  C10. Without a store handle, the adoption request fails with status 500 for every
  payload, a malformed identifier included; nothing is read, nothing is written.
\<close>

theorem adopt_unconfigured_500:
  "create_adoption_request rt None req =
     \<lparr>result = Inl (HTTPException 500 ''Database not configured''),
      db_after = None, calls = []\<rparr>"
  by (simp add: create_adoption_request_def)

theorem adopt_unconfigured_500_witness:
  "create_adoption_request strict_rt None \<lparr>pet_id = ''not-an-id'', requester = []\<rparr> =
     \<lparr>result = Inl (HTTPException 500 ''Database not configured''),
      db_after = None, calls = []\<rparr>"
  using adopt_unconfigured_500 [of strict_rt "\<lparr>pet_id = ''not-an-id'', requester = []\<rparr>"]
  by simp

text \<open>
  C4. With the store configured, a \<^verbatim>\<open>pet_id\<close> that \<^verbatim>\<open>ObjectId\<close> refuses yields status 400,
  and the store is neither read nor written: no call is made on it and it is unchanged.
\<close>

theorem adopt_invalid_id_400:
  "ObjectId (pet_id req) = Inl e \<Longrightarrow>
   create_adoption_request rt (Some s) req =
     \<lparr>result = Inl (HTTPException 400 ''Invalid pet ID''), db_after = Some s, calls = []\<rparr>"
  by (simp add: create_adoption_request_def)

theorem adopt_invalid_id_400_witness:
  "ObjectId (pet_id \<lparr>pet_id = ''not-an-id'', requester = []\<rparr>) = Inl InvalidId \<and>
   create_adoption_request strict_rt (Some shelter) \<lparr>pet_id = ''not-an-id'', requester = []\<rparr> =
     \<lparr>result = Inl (HTTPException 400 ''Invalid pet ID''),
      db_after = Some shelter, calls = []\<rparr>"
proof -
  have h: "ObjectId (pet_id \<lparr>pet_id = ''not-an-id'', requester = []\<rparr>) = Inl InvalidId"
    by (simp add: ObjectId_def)
  show ?thesis using h adopt_invalid_id_400 [OF h] by simp
qed

lemma adopt_found:
  assumes parse: "ObjectId (pet_id req) = Inr i"
    and mem: "d \<in> set (colls s ''pet'')"
    and id: "doc_id d = Some i"
  shows "create_adoption_request rt (Some s) req =
           \<lparr>result = Inr \<lparr>adopt_message = ''Request received'',
                          request_id = hexlify (new_oid s)\<rparr>,
            db_after = Some (snd (create_document s ''adoptionrequest'' (model_dump req))),
            calls = [FindOne ''pet'', InsertOne ''adoptionrequest'']\<rparr>"
proof -
  from mem id have "List.find (\<lambda>d. doc_id d = Some i) (colls s ''pet'') \<noteq> None"
    by (auto simp: find_id_None)
  then obtain d' where d': "find_one rt s ''pet'' [(''_id'', Eq (VOid i))] = Some d'"
    by (auto simp: find_one_id)
  then have "dict_truthy d'"
    by (auto simp: find_one_id dict_truthy_def dest: find_id_Some)
  with parse d' show ?thesis
    by (simp add: create_adoption_request_def split_beta fst_create_document)
qed

lemma hexlify_new_oid_not_Nil: "hexlify (new_oid s) \<noteq> []"
proof
  assume "hexlify (new_oid s) = []"
  then have "length (hexlify (new_oid s)) = 0" by simp
  then have "new_oid s = []" by (simp add: length_hexlify)
  then show False by (simp add: new_oid_def oid_of_nat_not_Nil)
qed

lemma used_ids_shelter:
  "used_ids shelter =
     [[0, 0, 0, 0, 0, 0, 0, 0, 0, 0, 0, 0], [0, 0, 0, 0, 0, 0, 0, 0, 0, 0, 0, 1]]"
  by (simp add: used_ids_def shelter_def rex_def luna_def List.map_filter_def)

lemma oid_nat_samples:
  "oid_nat [0, 0, 0, 0, 0, 0, 0, 0, 0, 0, 0, 0] = 0"
  "oid_nat [0, 0, 0, 0, 0, 0, 0, 0, 0, 0, 0, 1] = 1"
  by (simp_all add: oid_nat_def)

lemma be_bytes_12_2: "be_bytes 12 2 = [0, 0, 0, 0, 0, 0, 0, 0, 0, 0, 0, 2]"
  by code_simp

lemma oid_of_nat_2: "oid_of_nat 2 = [0, 0, 0, 0, 0, 0, 0, 0, 0, 0, 0, 2]"
proof -
  have "(2::nat) < 2 ^ 96" by simp
  then show ?thesis by (simp only: oid_of_nat_def if_True be_bytes_12_2)
qed

lemma new_oid_shelter: "new_oid shelter = [0, 0, 0, 0, 0, 0, 0, 0, 0, 0, 0, 2]"
proof -
  have "fold (\<lambda>i n. max n (Suc (oid_nat i))) (used_ids shelter) 0 = 2"
    by (simp add: used_ids_shelter oid_nat_samples)
  then show ?thesis by (simp only: new_oid_def oid_of_nat_2)
qed

lemma hexlify_sample_2:
  "hexlify [0, 0, 0, 0, 0, 0, 0, 0, 0, 0, 0, 2] = ''000000000000000000000002''"
  by (simp add: hexdigit_def hexdigits_def)

text \<open>
  C5. With the store configured and a well-formed \<^verbatim>\<open>pet_id\<close>: when no pet has that
  identifier the request fails with status 404, only the lookup is made and the store is
  unchanged; when a pet has it and that pet is already adopted, the request succeeds all
  the same, the lookup being by identifier alone: the answer is "Request received" with the
  new identifier, which is not empty, and the request is appended to the collection
  \<^verbatim>\<open>adoptionrequest\<close>, every other collection unchanged.
\<close>

theorem adopt_unknown_pet_404:
  assumes "ObjectId (pet_id req) = Inr i"
  shows "((\<forall>d \<in> set (colls s ''pet''). doc_id d \<noteq> Some i) \<longrightarrow>
            create_adoption_request rt (Some s) req =
              \<lparr>result = Inl (HTTPException 404 ''Pet not found''),
               db_after = Some s, calls = [FindOne ''pet'']\<rparr>) \<and>
         ((\<exists>d \<in> set (colls s ''pet'').
              doc_id d = Some i \<and> doc_get d ''is_adopted'' = Some (VBool True)) \<longrightarrow>
            (\<exists>s'. create_adoption_request rt (Some s) req =
                    \<lparr>result = Inr \<lparr>adopt_message = ''Request received'',
                                   request_id = hexlify (new_oid s)\<rparr>,
                     db_after = Some s',
                     calls = [FindOne ''pet'', InsertOne ''adoptionrequest'']\<rparr> \<and>
                  colls s' ''adoptionrequest'' =
                    colls s ''adoptionrequest'' @
                      [\<lparr>doc_id = Some (new_oid s), items = model_dump req\<rparr>] \<and>
                  (\<forall>c. c \<noteq> ''adoptionrequest'' \<longrightarrow> colls s' c = colls s c)) \<and>
            hexlify (new_oid s) \<noteq> [])"
proof (intro conjI impI)
  assume "\<forall>d \<in> set (colls s ''pet''). doc_id d \<noteq> Some i"
  then have "find_one rt s ''pet'' [(''_id'', Eq (VOid i))] = None"
    by (simp add: find_one_id find_id_None)
  with assms show "create_adoption_request rt (Some s) req =
      \<lparr>result = Inl (HTTPException 404 ''Pet not found''),
       db_after = Some s, calls = [FindOne ''pet'']\<rparr>"
    by (simp add: create_adoption_request_def)
next
  assume "\<exists>d \<in> set (colls s ''pet'').
            doc_id d = Some i \<and> doc_get d ''is_adopted'' = Some (VBool True)"
  then obtain d where mem: "d \<in> set (colls s ''pet'')" and id: "doc_id d = Some i"
    by blast
  let ?s' = "snd (create_document s ''adoptionrequest'' (model_dump req))"
  have "create_adoption_request rt (Some s) req =
          \<lparr>result = Inr \<lparr>adopt_message = ''Request received'',
                         request_id = hexlify (new_oid s)\<rparr>,
           db_after = Some ?s',
           calls = [FindOne ''pet'', InsertOne ''adoptionrequest'']\<rparr>"
    by (rule adopt_found [OF assms mem id])
  moreover have "colls ?s' ''adoptionrequest'' =
      colls s ''adoptionrequest'' @ [\<lparr>doc_id = Some (new_oid s), items = model_dump req\<rparr>]"
    by (simp add: colls_create_document)
  moreover have "\<forall>c. c \<noteq> ''adoptionrequest'' \<longrightarrow> colls ?s' c = colls s c"
    by (simp add: colls_create_document)
  ultimately show "\<exists>s'. create_adoption_request rt (Some s) req =
                    \<lparr>result = Inr \<lparr>adopt_message = ''Request received'',
                                   request_id = hexlify (new_oid s)\<rparr>,
                     db_after = Some s',
                     calls = [FindOne ''pet'', InsertOne ''adoptionrequest'']\<rparr> \<and>
                  colls s' ''adoptionrequest'' =
                    colls s ''adoptionrequest'' @
                      [\<lparr>doc_id = Some (new_oid s), items = model_dump req\<rparr>] \<and>
                  (\<forall>c. c \<noteq> ''adoptionrequest'' \<longrightarrow> colls s' c = colls s c)"
    by blast
next
  show "hexlify (new_oid s) \<noteq> []" by (rule hexlify_new_oid_not_Nil)
qed

theorem adopt_unknown_pet_404_witness:
  "create_adoption_request strict_rt (Some shelter)
       \<lparr>pet_id = ''000000000000000000000009'', requester = []\<rparr> =
     \<lparr>result = Inl (HTTPException 404 ''Pet not found''),
      db_after = Some shelter, calls = [FindOne ''pet'']\<rparr> \<and>
   doc_get luna ''is_adopted'' = Some (VBool True) \<and>
   (\<exists>s'. create_adoption_request strict_rt (Some shelter)
            \<lparr>pet_id = ''000000000000000000000001'', requester = []\<rparr> =
          \<lparr>result = Inr \<lparr>adopt_message = ''Request received'',
                         request_id = ''000000000000000000000002''\<rparr>,
           db_after = Some s',
           calls = [FindOne ''pet'', InsertOne ''adoptionrequest'']\<rparr> \<and>
        colls s' ''adoptionrequest'' =
          [\<lparr>doc_id = Some [0, 0, 0, 0, 0, 0, 0, 0, 0, 0, 0, 2],
            items = [(''pet_id'', VStr ''000000000000000000000001'')]\<rparr>] \<and>
        colls s' ''pet'' = [rex, luna])"
proof -
  let ?r9 = "\<lparr>pet_id = ''000000000000000000000009'', requester = []\<rparr>"
  let ?r1 = "\<lparr>pet_id = ''000000000000000000000001'', requester = []\<rparr>"
  have p9: "ObjectId (pet_id ?r9) = Inr [0, 0, 0, 0, 0, 0, 0, 0, 0, 0, 0, 9]"
    by (simp add: ObjectId_sample_9)
  have p1: "ObjectId (pet_id ?r1) = Inr [0, 0, 0, 0, 0, 0, 0, 0, 0, 0, 0, 1]"
    by (simp add: ObjectId_sample_1)
  have absent: "\<forall>d \<in> set (colls shelter ''pet'').
                  doc_id d \<noteq> Some [0, 0, 0, 0, 0, 0, 0, 0, 0, 0, 0, 9]"
    by (simp add: colls_shelter rex_def luna_def)
  have adopted: "doc_get luna ''is_adopted'' = Some (VBool True)"
    by (simp add: luna_def doc_get_def)
  have present: "\<exists>d \<in> set (colls shelter ''pet'').
      doc_id d = Some [0, 0, 0, 0, 0, 0, 0, 0, 0, 0, 0, 1] \<and>
      doc_get d ''is_adopted'' = Some (VBool True)"
    using adopted by (simp add: colls_shelter luna_def)
  from adopt_unknown_pet_404 [OF p9, of shelter strict_rt] absent
  have a: "create_adoption_request strict_rt (Some shelter) ?r9 =
     \<lparr>result = Inl (HTTPException 404 ''Pet not found''),
      db_after = Some shelter, calls = [FindOne ''pet'']\<rparr>"
    by blast
  from adopt_unknown_pet_404 [OF p1, of shelter strict_rt] present
  obtain s' where
    run: "create_adoption_request strict_rt (Some shelter) ?r1 =
          \<lparr>result = Inr \<lparr>adopt_message = ''Request received'',
                         request_id = hexlify (new_oid shelter)\<rparr>,
           db_after = Some s',
           calls = [FindOne ''pet'', InsertOne ''adoptionrequest'']\<rparr>"
    and ins: "colls s' ''adoptionrequest'' =
          colls shelter ''adoptionrequest'' @
            [\<lparr>doc_id = Some (new_oid shelter), items = model_dump ?r1\<rparr>]"
    and rest: "\<forall>c. c \<noteq> ''adoptionrequest'' \<longrightarrow> colls s' c = colls shelter c"
    by blast
  from rest have pets: "colls s' ''pet'' = [rex, luna]"
    by (simp add: colls_shelter)
  from run have run': "create_adoption_request strict_rt (Some shelter) ?r1 =
          \<lparr>result = Inr \<lparr>adopt_message = ''Request received'',
                         request_id = ''000000000000000000000002''\<rparr>,
           db_after = Some s',
           calls = [FindOne ''pet'', InsertOne ''adoptionrequest'']\<rparr>"
    by (simp only: new_oid_shelter hexlify_sample_2)
  from ins have ins': "colls s' ''adoptionrequest'' =
          [\<lparr>doc_id = Some [0, 0, 0, 0, 0, 0, 0, 0, 0, 0, 0, 2],
            items = [(''pet_id'', VStr ''000000000000000000000001'')]\<rparr>]"
    by (simp add: new_oid_shelter colls_shelter model_dump_def)
  from a adopted run' ins' pets show ?thesis by blast
qed

text \<open>
  C6. With the store configured, a well-formed \<^verbatim>\<open>pet_id\<close> and a pet of that identifier,
  the request succeeds: one document, the request with a new identifier, is appended to the
  collection \<^verbatim>\<open>adoptionrequest\<close>, every other collection is unchanged, and the identifier
  returned is not empty and differs from the pet's, both as sent and as the store prints it.
\<close>

theorem adopt_existing_pet_succeeds:
  assumes parse: "ObjectId (pet_id req) = Inr i"
    and mem: "d \<in> set (colls s ''pet'')"
    and id: "doc_id d = Some i"
  shows "\<exists>rid s'.
           create_adoption_request rt (Some s) req =
             \<lparr>result = Inr \<lparr>adopt_message = ''Request received'', request_id = rid\<rparr>,
              db_after = Some s',
              calls = [FindOne ''pet'', InsertOne ''adoptionrequest'']\<rparr> \<and>
           colls s' ''adoptionrequest'' =
             colls s ''adoptionrequest'' @
               [\<lparr>doc_id = Some (new_oid s), items = model_dump req\<rparr>] \<and>
           (\<forall>c. c \<noteq> ''adoptionrequest'' \<longrightarrow> colls s' c = colls s c) \<and>
           rid = hexlify (new_oid s) \<and>
           rid \<noteq> [] \<and> rid \<noteq> pet_id req \<and> rid \<noteq> hexlify i \<and>
           (\<forall>c. \<forall>d' \<in> set (colls s c). doc_id d' \<noteq> Some (new_oid s))"
proof -
  let ?n = "new_oid s"
  let ?s' = "snd (create_document s ''adoptionrequest'' (model_dump req))"
  have run: "create_adoption_request rt (Some s) req =
      \<lparr>result = Inr \<lparr>adopt_message = ''Request received'', request_id = hexlify ?n\<rparr>,
       db_after = Some ?s',
       calls = [FindOne ''pet'', InsertOne ''adoptionrequest'']\<rparr>"
    by (rule adopt_found [OF parse mem id])
  have fresh: "?n \<noteq> i" by (rule new_oid_fresh [OF mem id])
  have ne: "hexlify ?n \<noteq> []" by (rule hexlify_new_oid_not_Nil)
  have ne_i: "hexlify ?n \<noteq> hexlify i"
    using fresh hexlify_inj by blast
  have ne_req: "hexlify ?n \<noteq> pet_id req"
  proof
    assume "hexlify ?n = pet_id req"
    then have "bytes_fromhex (pet_id req) = Some ?n"
      using fromhex_hexlify [of ?n] by simp
    with parse have "?n = i"
      by (simp add: ObjectId_def split: if_splits)
    with fresh show False by simp
  qed
  have c1: "colls ?s' ''adoptionrequest'' =
             colls s ''adoptionrequest'' @ [\<lparr>doc_id = Some ?n, items = model_dump req\<rparr>]"
    by (simp add: colls_create_document)
  have c2: "\<forall>c. c \<noteq> ''adoptionrequest'' \<longrightarrow> colls ?s' c = colls s c"
    by (simp add: colls_create_document)
  have new: "\<forall>c. \<forall>d' \<in> set (colls s c). doc_id d' \<noteq> Some ?n"
    using new_oid_fresh by blast
  from run c1 c2 ne ne_req ne_i new show ?thesis by blast
qed

theorem adopt_existing_pet_succeeds_witness:
  "ObjectId (pet_id \<lparr>pet_id = ''000000000000000000000001'', requester = []\<rparr>) =
     Inr [0, 0, 0, 0, 0, 0, 0, 0, 0, 0, 0, 1] \<and>
   luna \<in> set (colls shelter ''pet'') \<and>
   doc_id luna = Some [0, 0, 0, 0, 0, 0, 0, 0, 0, 0, 0, 1] \<and>
   (\<exists>s'.
      create_adoption_request strict_rt (Some shelter)
          \<lparr>pet_id = ''000000000000000000000001'', requester = []\<rparr> =
        \<lparr>result = Inr \<lparr>adopt_message = ''Request received'',
                       request_id = ''000000000000000000000002''\<rparr>,
         db_after = Some s',
         calls = [FindOne ''pet'', InsertOne ''adoptionrequest'']\<rparr> \<and>
      colls s' ''adoptionrequest'' =
        [\<lparr>doc_id = Some [0, 0, 0, 0, 0, 0, 0, 0, 0, 0, 0, 2],
          items = [(''pet_id'', VStr ''000000000000000000000001'')]\<rparr>]) \<and>
   ''000000000000000000000002'' \<noteq> ''000000000000000000000001''"
proof -
  let ?req = "\<lparr>pet_id = ''000000000000000000000001'', requester = []\<rparr>"
  have p1: "ObjectId (pet_id ?req) = Inr [0, 0, 0, 0, 0, 0, 0, 0, 0, 0, 0, 1]"
    by (simp add: ObjectId_sample_1)
  have mem: "luna \<in> set (colls shelter ''pet'')"
    by (simp add: colls_shelter)
  have id: "doc_id luna = Some [0, 0, 0, 0, 0, 0, 0, 0, 0, 0, 0, 1]"
    by (simp add: luna_def)
  from adopt_existing_pet_succeeds [OF p1 mem id, of strict_rt]
  obtain rid s' where
    run: "create_adoption_request strict_rt (Some shelter) ?req =
        \<lparr>result = Inr \<lparr>adopt_message = ''Request received'', request_id = rid\<rparr>,
         db_after = Some s',
         calls = [FindOne ''pet'', InsertOne ''adoptionrequest'']\<rparr>"
    and ins: "colls s' ''adoptionrequest'' =
          colls shelter ''adoptionrequest'' @
            [\<lparr>doc_id = Some (new_oid shelter), items = model_dump ?req\<rparr>]"
    and rid: "rid = hexlify (new_oid shelter)"
    by blast
  from rid have rid': "rid = ''000000000000000000000002''"
    by (simp only: new_oid_shelter hexlify_sample_2)
  from ins have ins': "colls s' ''adoptionrequest'' =
        [\<lparr>doc_id = Some [0, 0, 0, 0, 0, 0, 0, 0, 0, 0, 0, 2],
          items = [(''pet_id'', VStr ''000000000000000000000001'')]\<rparr>]"
    by (simp add: new_oid_shelter colls_shelter model_dump_def)
  have "''000000000000000000000002'' \<noteq> ''000000000000000000000001''" by simp
  with p1 mem id run ins' rid' show ?thesis by blast
qed

subsection \<open>The claim on POST /seed\<close>

lemma create_each_items:
  "map items (colls (fst (create_each s c ps)) c) = map items (colls s c) @ ps"
proof (induction ps arbitrary: s)
  case Nil
  show ?case by simp
next
  case (Cons p ps)
  have "fst (create_each s c (p # ps)) = fst (create_each (snd (create_document s c p)) c ps)"
    by (simp add: split_beta)
  then show ?case
    using Cons.IH [of "snd (create_document s c p)"]
    by (simp add: colls_create_document)
qed

lemma create_each_calls:
  "snd (create_each s c ps) = map (\<lambda>p. InsertOne c) ps"
proof (induction ps arbitrary: s)
  case Nil
  show ?case by simp
next
  case (Cons p ps)
  show ?case
    using Cons.IH [of "snd (create_document s c p)"]
    by (auto simp: Let_def split: prod.splits)
qed

lemma length_sample_pets: "length sample_pets = 3"
  by (simp add: sample_pets_def)

text \<open>
  C3. Starting from a configured store with no pet, the first call of \<^verbatim>\<open>seed_pets\<close>
  inserts the three sample pets, in order, and reports the count 3; the second call
  reports "Already seeded" with the same count, only counts, and leaves the store as the
  first call left it.
\<close>

theorem seed_twice:
  assumes "colls s ''pet'' = []"
  shows "\<exists>s1. seed_pets (Some s) =
            \<lparr>result = Inr \<lparr>seed_message = ''Seeded'', seed_count = 3\<rparr>,
             db_after = Some s1,
             calls = CountDocuments ''pet'' # map (\<lambda>p. InsertOne ''pet'') sample_pets\<rparr> \<and>
          map items (colls s1 ''pet'') = sample_pets \<and>
          length (colls s1 ''pet'') = 3 \<and>
          seed_pets (Some s1) =
            \<lparr>result = Inr \<lparr>seed_message = ''Already seeded'', seed_count = 3\<rparr>,
             db_after = Some s1, calls = [CountDocuments ''pet'']\<rparr>"
proof -
  define s1 where "s1 = fst (create_each s ''pet'' sample_pets)"
  have ce: "create_each s ''pet'' sample_pets = (s1, map (\<lambda>p. InsertOne ''pet'') sample_pets)"
    by (simp add: s1_def prod_eq_iff create_each_calls)
  have its: "map items (colls s1 ''pet'') = sample_pets"
    using create_each_items [of s "''pet''" sample_pets] assms by (simp add: s1_def)
  then have "length (map items (colls s1 ''pet'')) = 3"
    by (simp only: length_sample_pets)
  then have len: "length (colls s1 ''pet'') = 3" by simp
  have first: "seed_pets (Some s) =
            \<lparr>result = Inr \<lparr>seed_message = ''Seeded'', seed_count = 3\<rparr>,
             db_after = Some s1,
             calls = CountDocuments ''pet'' # map (\<lambda>p. InsertOne ''pet'') sample_pets\<rparr>"
    using assms by (simp add: seed_pets_def count_documents_def ce length_sample_pets)
  have second: "seed_pets (Some s1) =
            \<lparr>result = Inr \<lparr>seed_message = ''Already seeded'', seed_count = 3\<rparr>,
             db_after = Some s1, calls = [CountDocuments ''pet'']\<rparr>"
    using len by (simp add: seed_pets_def count_documents_def)
  from first its len second show ?thesis by blast
qed

theorem seed_twice_witness:
  "colls empty_db ''pet'' = [] \<and>
   (\<exists>s1. seed_pets (Some empty_db) =
            \<lparr>result = Inr \<lparr>seed_message = ''Seeded'', seed_count = 3\<rparr>,
             db_after = Some s1,
             calls = CountDocuments ''pet'' # map (\<lambda>p. InsertOne ''pet'') sample_pets\<rparr> \<and>
          map items (colls s1 ''pet'') = sample_pets \<and>
          length (colls s1 ''pet'') = 3 \<and>
          seed_pets (Some s1) =
            \<lparr>result = Inr \<lparr>seed_message = ''Already seeded'', seed_count = 3\<rparr>,
             db_after = Some s1, calls = [CountDocuments ''pet'']\<rparr>)"
proof -
  have h: "colls empty_db ''pet'' = []" by (rule colls_empty_db)
  from h seed_twice [OF h] show ?thesis by (rule conjI)
qed

subsection \<open>The view of a document\<close>

lemma validate_str_err: "validate_str rt v = Inl e \<Longrightarrow> e = ValidationError"
  by (cases v) (auto simp: of_lax_def split: option.splits)

lemma validate_opt_str_err: "validate_opt_str rt v = Inl e \<Longrightarrow> e = ValidationError"
  by (cases v) (auto simp: of_lax_def split: option.splits)

lemma validate_float_err: "validate_float rt v = Inl e \<Longrightarrow> e = ValidationError"
  by (cases v) (auto simp: of_lax_def split: option.splits)

lemma validate_bool_err: "validate_bool rt v = Inl e \<Longrightarrow> e = ValidationError"
  by (cases v) (auto simp: of_lax_def split: option.splits)

lemma bind_err_Inr:
  "bind_err x f = Inr b \<Longrightarrow> \<exists>a. x = Inr a \<and> f a = Inr b"
  by (cases x) (simp_all add: bind_err_def)

lemma bind_err_Inl:
  "bind_err x f = Inl e \<Longrightarrow> x = Inl e \<or> (\<exists>a. x = Inr a \<and> f a = Inl e)"
  by (cases x) (simp_all add: bind_err_def)

lemma from_mongo_InrD:
  assumes "from_mongo rt d = Inr p"
  shows "validate_str rt (get_or d ''name'' VNone) = Inr (name p)"
    and "validate_str rt (get_or d ''species'' VNone) = Inr (species p)"
    and "validate_float rt (get_or d ''age_years'' VNone) = Inr (age_years p)"
    and "validate_str rt (get_or d ''gender'' VNone) = Inr (gender p)"
    and "validate_str rt (get_or d ''size'' VNone) = Inr (size' p)"
    and "validate_opt_str rt (get_or d ''description'' VNone) = Inr (description p)"
    and "validate_opt_str rt (get_or d ''photo_url'' VNone) = Inr (photo_url p)"
    and "validate_opt_str rt (get_or d ''location'' VNone) = Inr (location p)"
    and "validate_bool rt (get_or d ''is_adopted'' (VBool False)) = Inr (is_adopted p)"
    and "id' p = str_id d"
  using assms unfolding from_mongo_def
  by (auto dest!: bind_err_Inr)

lemma from_mongo_err: "from_mongo rt d = Inl e \<Longrightarrow> e = ValidationError"
  unfolding from_mongo_def
  by (auto dest!: bind_err_Inl dest: validate_str_err validate_opt_str_err validate_float_err
        validate_bool_err)

lemma from_mongo_required:
  assumes "from_mongo rt d = Inr p" and "k \<in> {''name'', ''species'', ''age_years'', ''gender'', ''size''}"
  shows "doc_get d k \<noteq> None"
proof
  assume "doc_get d k = None"
  then have "get_or d k VNone = VNone" by (simp add: get_or_def)
  with from_mongo_InrD(1-5) [OF assms(1)] assms(2) show False by auto
qed

lemma validate_opt_str_text:
  "optional_text v \<Longrightarrow>
   validate_opt_str rt (case v of None \<Rightarrow> VNone | Some x \<Rightarrow> x) = Inr (text_of v)"
  by (auto simp: optional_text_def text_of_def split: option.splits val.splits)

lemma validate_bool_flag:
  "optional_flag v \<Longrightarrow>
   validate_bool rt (case v of None \<Rightarrow> VBool False | Some x \<Rightarrow> x) = Inr (flag_of v)"
  by (auto simp: optional_flag_def flag_of_def split: option.splits val.splits)

lemma from_mongo_rex: "from_mongo rt rex = Inr rex_out"
  by (simp add: from_mongo_def bind_err_def get_or_def doc_get_def rex_def rex_out_def
        str_id_def hexdigit_def hexdigits_def)

text \<open>
  C8, as the code has it. The mapping copies the fields of the document into the view and
  tolerates the optional ones: an absent or null \<^verbatim>\<open>description\<close>, \<^verbatim>\<open>photo_url\<close> or
  \<^verbatim>\<open>location\<close> shows as null, an absent \<^verbatim>\<open>is_adopted\<close> as false. The required fields are
  validated by the model: a document without \<^verbatim>\<open>name\<close>, \<^verbatim>\<open>species\<close>, \<^verbatim>\<open>age_years\<close>,
  \<^verbatim>\<open>gender\<close> or \<^verbatim>\<open>size\<close> is refused with a validation error.
\<close>

theorem from_mongo_required_validated:
  "((doc_get d ''name'' = None \<or> doc_get d ''species'' = None \<or>
     doc_get d ''age_years'' = None \<or> doc_get d ''gender'' = None \<or>
     doc_get d ''size'' = None) \<longrightarrow> from_mongo rt d = Inl ValidationError) \<and>
   ((doc_get d ''name'' = Some (VStr n) \<and> doc_get d ''species'' = Some (VStr sp) \<and>
     doc_get d ''age_years'' = Some (VNum a) \<and> doc_get d ''gender'' = Some (VStr g) \<and>
     doc_get d ''size'' = Some (VStr sz) \<and>
     optional_text (doc_get d ''description'') \<and> optional_text (doc_get d ''photo_url'') \<and>
     optional_text (doc_get d ''location'') \<and> optional_flag (doc_get d ''is_adopted'')) \<longrightarrow>
    from_mongo rt d =
      Inr \<lparr>id' = str_id d, name = n, species = sp, age_years = a, gender = g, size' = sz,
           description = text_of (doc_get d ''description''),
           photo_url = text_of (doc_get d ''photo_url''),
           location = text_of (doc_get d ''location''),
           is_adopted = flag_of (doc_get d ''is_adopted'')\<rparr>) \<and>
   text_of None = None \<and> flag_of None = False"
proof (intro conjI impI)
  assume miss: "doc_get d ''name'' = None \<or> doc_get d ''species'' = None \<or>
     doc_get d ''age_years'' = None \<or> doc_get d ''gender'' = None \<or>
     doc_get d ''size'' = None"
  show "from_mongo rt d = Inl ValidationError"
  proof (cases "from_mongo rt d")
    case (Inl e)
    then show ?thesis using from_mongo_err by simp
  next
    case (Inr p)
    from miss from_mongo_required [OF Inr] have False by auto
    then show ?thesis ..
  qed
next
  assume ok: "doc_get d ''name'' = Some (VStr n) \<and> doc_get d ''species'' = Some (VStr sp) \<and>
     doc_get d ''age_years'' = Some (VNum a) \<and> doc_get d ''gender'' = Some (VStr g) \<and>
     doc_get d ''size'' = Some (VStr sz) \<and>
     optional_text (doc_get d ''description'') \<and> optional_text (doc_get d ''photo_url'') \<and>
     optional_text (doc_get d ''location'') \<and> optional_flag (doc_get d ''is_adopted'')"
  then show "from_mongo rt d =
      Inr \<lparr>id' = str_id d, name = n, species = sp, age_years = a, gender = g, size' = sz,
           description = text_of (doc_get d ''description''),
           photo_url = text_of (doc_get d ''photo_url''),
           location = text_of (doc_get d ''location''),
           is_adopted = flag_of (doc_get d ''is_adopted'')\<rparr>"
    by (simp add: from_mongo_def bind_err_def get_or_def validate_opt_str_text validate_bool_flag)
next
  show "text_of None = None" by (simp add: text_of_def)
  show "flag_of None = False" by (simp add: flag_of_def)
qed

theorem from_mongo_required_validated_witness:
  "doc_get nameless ''name'' = None \<and>
   from_mongo strict_rt nameless = Inl ValidationError \<and>
   from_mongo strict_rt rex = Inr rex_out"
proof -
  have miss: "doc_get nameless ''name'' = None"
    by (simp add: doc_get_def nameless_def)
  have ok: "doc_get rex ''name'' = Some (VStr ''Rex'') \<and> doc_get rex ''species'' = Some (VStr ''Dog'') \<and>
     doc_get rex ''age_years'' = Some (VNum 4) \<and> doc_get rex ''gender'' = Some (VStr ''Male'') \<and>
     doc_get rex ''size'' = Some (VStr ''Large'') \<and>
     optional_text (doc_get rex ''description'') \<and> optional_text (doc_get rex ''photo_url'') \<and>
     optional_text (doc_get rex ''location'') \<and> optional_flag (doc_get rex ''is_adopted'')"
    by (simp add: doc_get_def rex_def optional_text_def optional_flag_def)
  have view: "\<lparr>id' = str_id rex, name = ''Rex'', species = ''Dog'', age_years = 4,
            gender = ''Male'', size' = ''Large'',
            description = text_of (doc_get rex ''description''),
            photo_url = text_of (doc_get rex ''photo_url''),
            location = text_of (doc_get rex ''location''),
            is_adopted = flag_of (doc_get rex ''is_adopted'')\<rparr> = rex_out"
    by (simp add: rex_out_def rex_def doc_get_def text_of_def flag_of_def str_id_def
          hexdigit_def hexdigits_def)
  from from_mongo_required_validated [where d = nameless and rt = strict_rt] miss
  have a: "from_mongo strict_rt nameless = Inl ValidationError" by blast
  from from_mongo_required_validated [where d = rex and rt = strict_rt and n = "''Rex''"
         and sp = "''Dog''" and a = 4 and g = "''Male''" and sz = "''Large''"] ok
  have "from_mongo strict_rt rex = Inr \<lparr>id' = str_id rex, name = ''Rex'', species = ''Dog'', age_years = 4,
            gender = ''Male'', size' = ''Large'',
            description = text_of (doc_get rex ''description''),
            photo_url = text_of (doc_get rex ''photo_url''),
            location = text_of (doc_get rex ''location''),
            is_adopted = flag_of (doc_get rex ''is_adopted'')\<rparr>" by blast
  with view have b: "from_mongo strict_rt rex = Inr rex_out" by simp
  from miss a b show ?thesis by blast
qed

text \<open>
  C8 as stated fails: a document without a name is refused by the mapping.
\<close>

theorem from_mongo_missing_name_counterexample:
  "doc_get nameless ''name'' = None \<and> from_mongo strict_rt nameless = Inl ValidationError"
  by (simp add: from_mongo_def bind_err_def get_or_def doc_get_def nameless_def)

subsection \<open>The claims on GET /api/pets\<close>

lemma filter_q_adopted: "(''is_adopted'', Eq (VBool False)) \<in> set (filter_q sp sz q)"
  by (simp add: filter_q_def Let_def)

lemma filter_q_species:
  "x \<noteq> [] \<Longrightarrow> (''species'', Eq (VStr x)) \<in> set (filter_q (Some x) sz q)"
  by (simp add: filter_q_def Let_def given_def)

lemma filter_q_size:
  "x \<noteq> [] \<Longrightarrow> (''size'', Eq (VStr x)) \<in> set (filter_q sp (Some x) q)"
  by (simp add: filter_q_def Let_def given_def)

lemma filter_q_or:
  "x \<noteq> [] \<Longrightarrow>
   (''$or'', Or [(''name'', x, ''i''), (''description'', x, ''i''), (''location'', x, ''i'')])
     \<in> set (filter_q sp sz (Some x))"
  by (simp add: filter_q_def Let_def given_def)

lemma get_documents_InrD:
  "get_documents rt s coll qry = Inr docs \<Longrightarrow> d \<in> set docs \<Longrightarrow>
   d \<in> set (colls s coll) \<and> (\<forall>c \<in> set qry. cond_holds rt d c)"
  by (auto simp: get_documents_def doc_matches_def split: if_splits)

lemma from_mongo_all_list_all2:
  "from_mongo_all rt ds = Inr ps \<Longrightarrow> list_all2 (\<lambda>d p. from_mongo rt d = Inr p) ds ps"
proof (induction ds arbitrary: ps)
  case Nil
  then show ?case by simp
next
  case (Cons d ds)
  then show ?case by (auto simp: bind_err_def split: sum.splits)
qed

lemma list_all2_source:
  "list_all2 R ds ps \<Longrightarrow> p \<in> set ps \<Longrightarrow> \<exists>d \<in> set ds. R d p"
  by (induction rule: list_all2_induct) auto

lemma list_pets_InrD:
  assumes "list_pets rt s sp sz q = Inr out"
  shows "\<exists>docs. get_documents rt s ''pet'' (filter_q sp sz q) = Inr docs \<and>
           list_all2 (\<lambda>d p. from_mongo rt d = Inr p) docs out"
  using assms unfolding list_pets_def
  by (auto dest!: bind_err_Inr from_mongo_all_list_all2)

lemma adopted_False_view:
  assumes "from_mongo rt d = Inr p" "doc_get d ''is_adopted'' = Some (VBool False)"
  shows "\<not> is_adopted p"
  using from_mongo_InrD(9) [OF assms(1)] assms(2) by (simp add: get_or_def)

lemma list_pets_shelter_all: "list_pets strict_rt shelter None None None = Inr [rex_out]"
  by (simp add: list_pets_def get_documents_def query_valid_def filter_q_def given_def
        doc_matches_def colls_shelter bind_err_def from_mongo_rex)
    (simp add: doc_get_def rex_def luna_def)

lemma eq_text_view:
  assumes "from_mongo rt d = Inr p"
  shows "doc_get d ''species'' = Some (VStr x) \<Longrightarrow> species p = x"
    and "doc_get d ''size'' = Some (VStr x) \<Longrightarrow> size' p = x"
    and "doc_get d ''name'' = Some (VStr x) \<Longrightarrow> name p = x"
    and "doc_get d ''description'' = Some (VStr x) \<Longrightarrow> description p = Some x"
    and "doc_get d ''location'' = Some (VStr x) \<Longrightarrow> location p = Some x"
  using from_mongo_InrD [OF assms] by (simp_all add: get_or_def)

lemma regex_holdsD:
  "regex_holds rt d (fld, pat, opts) \<Longrightarrow>
   \<exists>t m. doc_get d fld = Some (VStr t) \<and> regex_compile rt pat opts = Some m \<and> m t"
  by (auto split: option.splits val.splits)

lemma regex_compile_plain:
  "plain x \<Longrightarrow> regex_compile rt x ''i'' = Some (\<lambda>s. ci_contains s x)"
  by (simp add: regex_compile_def)

lemma plain_RE: "plain ''RE''"
  by (simp add: plain_def metachars_def)

lemma regex_compile_dot:
  "regex_compile strict_rt ''r.x'' ''i'' = Some (\<lambda>s. dot_search s ''r.x'')"
  by (simp add: regex_compile_def plain_def metachars_def strict_rt_def pcre_dot_def)

lemma list_pets_shelter_dog_re:
  "list_pets strict_rt shelter (Some ''Dog'') None (Some ''RE'') = Inr [rex_out]"
  by (simp add: list_pets_def get_documents_def query_valid_def filter_q_def given_def
        doc_matches_def colls_shelter bind_err_def from_mongo_rex
        regex_compile_plain [OF plain_RE])
    (simp add: doc_get_def rex_def luna_def ci_contains_def to_lower_def
        regex_compile_plain [OF plain_RE])

lemma list_pets_shelter_dot:
  "list_pets strict_rt shelter None None (Some ''r.x'') = Inr [rex_out]"
  by (simp add: list_pets_def get_documents_def query_valid_def filter_q_def given_def
        doc_matches_def colls_shelter bind_err_def from_mongo_rex regex_compile_dot)
    (simp add: doc_get_def rex_def luna_def to_lower_def regex_compile_dot)

text \<open>
  C1. Whatever the filters, every document selected by \<^verbatim>\<open>list_pets\<close> is a pet of the store
  whose \<^verbatim>\<open>is_adopted\<close> is false, so a document whose \<^verbatim>\<open>is_adopted\<close> is true is never
  selected, and every view returned has \<^verbatim>\<open>is_adopted\<close> false.
\<close>

theorem list_pets_never_adopted:
  assumes "list_pets rt s sp sz q = Inr out"
  shows "\<exists>docs. list_all2 (\<lambda>d p. from_mongo rt d = Inr p) docs out \<and>
           (\<forall>d \<in> set docs. d \<in> set (colls s ''pet'') \<and>
                            doc_get d ''is_adopted'' = Some (VBool False)) \<and>
           (\<forall>d. doc_get d ''is_adopted'' = Some (VBool True) \<longrightarrow> d \<notin> set docs) \<and>
           (\<forall>p \<in> set out. \<not> is_adopted p)"
proof -
  from list_pets_InrD [OF assms] obtain docs where
    g: "get_documents rt s ''pet'' (filter_q sp sz q) = Inr docs" and
    m: "list_all2 (\<lambda>d p. from_mongo rt d = Inr p) docs out"
    by blast
  have sel: "d \<in> set (colls s ''pet'') \<and> doc_get d ''is_adopted'' = Some (VBool False)"
    if "d \<in> set docs" for d
  proof -
    from get_documents_InrD [OF g that] filter_q_adopted [of sp sz q]
    have "d \<in> set (colls s ''pet'')" and "cond_holds rt d (''is_adopted'', Eq (VBool False))"
      by blast+
    then show ?thesis by simp
  qed
  have no: "d \<notin> set docs" if "doc_get d ''is_adopted'' = Some (VBool True)" for d
    using sel [of d] that by auto
  have view: "\<not> is_adopted p" if "p \<in> set out" for p
  proof -
    from list_all2_source [OF m that] obtain d where "d \<in> set docs" "from_mongo rt d = Inr p"
      by blast
    with sel [of d] show ?thesis using adopted_False_view by blast
  qed
  from m sel no view show ?thesis by blast
qed

theorem list_pets_never_adopted_witness:
  "list_pets strict_rt shelter None None None = Inr [rex_out] \<and>
   luna \<in> set (colls shelter ''pet'') \<and>
   doc_get luna ''is_adopted'' = Some (VBool True) \<and>
   (\<exists>docs. list_all2 (\<lambda>d p. from_mongo strict_rt d = Inr p) docs [rex_out] \<and>
           (\<forall>d \<in> set docs. d \<in> set (colls shelter ''pet'') \<and>
                            doc_get d ''is_adopted'' = Some (VBool False)) \<and>
           luna \<notin> set docs \<and>
           (\<forall>p \<in> set [rex_out]. \<not> is_adopted p))"
proof -
  have mem: "luna \<in> set (colls shelter ''pet'')" by (simp add: colls_shelter)
  have ad: "doc_get luna ''is_adopted'' = Some (VBool True)"
    by (simp add: luna_def doc_get_def)
  from list_pets_never_adopted [OF list_pets_shelter_all] ad
  have "\<exists>docs. list_all2 (\<lambda>d p. from_mongo strict_rt d = Inr p) docs [rex_out] \<and>
           (\<forall>d \<in> set docs. d \<in> set (colls shelter ''pet'') \<and>
                            doc_get d ''is_adopted'' = Some (VBool False)) \<and>
           luna \<notin> set docs \<and>
           (\<forall>p \<in> set [rex_out]. \<not> is_adopted p)"
    by blast
  with list_pets_shelter_all mem ad show ?thesis by blast
qed

text \<open>
  C2, as the code has it. Every pet returned satisfies every filter that is given and not
  empty: its species and its size are the ones asked for, and the query, read as a regular
  expression without case, matches its name, its description or its location. When the
  query holds no metacharacter, this is to say that the query occurs in one of the three,
  letters compared without case.
\<close>

theorem list_pets_filters:
  assumes "list_pets rt s sp sz q = Inr out" and "p \<in> set out"
  shows "(\<forall>x. sp = Some x \<and> x \<noteq> [] \<longrightarrow> species p = x) \<and>
         (\<forall>x. sz = Some x \<and> x \<noteq> [] \<longrightarrow> size' p = x) \<and>
         (\<forall>x. q = Some x \<and> x \<noteq> [] \<longrightarrow>
            (\<exists>m. regex_compile rt x ''i'' = Some m \<and>
                 (m (name p) \<or> (\<exists>t. description p = Some t \<and> m t) \<or>
                  (\<exists>t. location p = Some t \<and> m t)))) \<and>
         (\<forall>x. q = Some x \<and> x \<noteq> [] \<and> plain x \<longrightarrow>
            (ci_contains (name p) x \<or> (\<exists>t. description p = Some t \<and> ci_contains t x) \<or>
             (\<exists>t. location p = Some t \<and> ci_contains t x)))"
proof -
  from list_pets_InrD [OF assms(1)] obtain docs where
    g: "get_documents rt s ''pet'' (filter_q sp sz q) = Inr docs" and
    m: "list_all2 (\<lambda>d p. from_mongo rt d = Inr p) docs out"
    by blast
  from list_all2_source [OF m assms(2)] obtain d where
    d: "d \<in> set docs" and v: "from_mongo rt d = Inr p"
    by blast
  from get_documents_InrD [OF g d]
  have holds: "\<forall>c \<in> set (filter_q sp sz q). cond_holds rt d c" by blast
  have species: "species p = x" if "sp = Some x" "x \<noteq> []" for x
  proof -
    from holds filter_q_species [OF that(2), of sz q] that(1)
    have "cond_holds rt d (''species'', Eq (VStr x))" by blast
    then show ?thesis using eq_text_view(1) [OF v] by simp
  qed
  have size: "size' p = x" if "sz = Some x" "x \<noteq> []" for x
  proof -
    from holds filter_q_size [OF that(2), of sp q] that(1)
    have "cond_holds rt d (''size'', Eq (VStr x))" by blast
    then show ?thesis using eq_text_view(2) [OF v] by simp
  qed
  have query: "\<exists>m. regex_compile rt x ''i'' = Some m \<and>
                 (m (name p) \<or> (\<exists>t. description p = Some t \<and> m t) \<or>
                  (\<exists>t. location p = Some t \<and> m t))"
    if "q = Some x" "x \<noteq> []" for x
  proof -
    from holds filter_q_or [OF that(2), of sp sz] that(1)
    have "cond_holds rt d (''$or'', Or [(''name'', x, ''i''), (''description'', x, ''i''),
                                        (''location'', x, ''i'')])"
      by blast
    then consider "regex_holds rt d (''name'', x, ''i'')"
      | "regex_holds rt d (''description'', x, ''i'')"
      | "regex_holds rt d (''location'', x, ''i'')"
      by auto
    then show ?thesis
    proof cases
      case 1
      from regex_holdsD [OF 1] eq_text_view(3) [OF v] show ?thesis by blast
    next
      case 2
      from regex_holdsD [OF 2] eq_text_view(4) [OF v] show ?thesis by blast
    next
      case 3
      from regex_holdsD [OF 3] eq_text_view(5) [OF v] show ?thesis by blast
    qed
  qed
  have substring: "ci_contains (name p) x \<or> (\<exists>t. description p = Some t \<and> ci_contains t x) \<or>
             (\<exists>t. location p = Some t \<and> ci_contains t x)"
    if "q = Some x" "x \<noteq> []" "plain x" for x
    using query [OF that(1,2)] regex_compile_plain [OF that(3), of rt] by auto
  from species size query substring show ?thesis by blast
qed

theorem list_pets_filters_witness:
  "list_pets strict_rt shelter (Some ''Dog'') None (Some ''RE'') = Inr [rex_out] \<and>
   rex_out \<in> set [rex_out] \<and> plain ''RE'' \<and>
   species rex_out = ''Dog'' \<and>
   (ci_contains (name rex_out) ''RE'' \<or>
    (\<exists>t. description rex_out = Some t \<and> ci_contains t ''RE'') \<or>
    (\<exists>t. location rex_out = Some t \<and> ci_contains t ''RE''))"
proof -
  have mem: "rex_out \<in> set [rex_out]" by simp
  have pl: "plain ''RE''" by (rule plain_RE)
  from list_pets_filters [OF list_pets_shelter_dog_re mem] pl
  have "species rex_out = ''Dog''"
    and "ci_contains (name rex_out) ''RE'' \<or>
         (\<exists>t. description rex_out = Some t \<and> ci_contains t ''RE'') \<or>
         (\<exists>t. location rex_out = Some t \<and> ci_contains t ''RE'')"
    by blast+
  with list_pets_shelter_dog_re mem pl show ?thesis by blast
qed

text \<open>
  C2 as stated fails: the query \<^verbatim>\<open>r.x\<close> returns the pet named Rex, and \<^verbatim>\<open>r.x\<close> occurs in
  none of its name, description and location.
\<close>

theorem list_pets_regex_counterexample:
  "list_pets strict_rt shelter None None (Some ''r.x'') = Inr [rex_out] \<and>
   \<not> (ci_contains (name rex_out) ''r.x'' \<or>
      (\<exists>t. description rex_out = Some t \<and> ci_contains t ''r.x'') \<or>
      (\<exists>t. location rex_out = Some t \<and> ci_contains t ''r.x''))"
proof -
  have "\<not> ci_contains (name rex_out) ''r.x''"
    by (simp add: rex_out_def ci_contains_def to_lower_def)
  moreover have "description rex_out = None" "location rex_out = None"
    by (simp_all add: rex_out_def)
  ultimately show ?thesis using list_pets_shelter_dot by simp
qed

text \<open>
  C9. An empty string given for the species, the size or the query is treated as no filter
  at all: the result is that of the call without the parameter.
\<close>

theorem list_pets_empty_string_is_absent:
  "list_pets rt s (Some []) sz q = list_pets rt s None sz q \<and>
   list_pets rt s sp (Some []) q = list_pets rt s sp None q \<and>
   list_pets rt s sp sz (Some []) = list_pets rt s sp sz None"
  by (simp add: list_pets_def filter_q_def given_def)

theorem list_pets_empty_string_is_absent_witness:
  "list_pets strict_rt shelter (Some []) None None = Inr [rex_out] \<and>
   list_pets strict_rt shelter None (Some []) None = Inr [rex_out] \<and>
   list_pets strict_rt shelter None None (Some []) = Inr [rex_out]"
  using list_pets_empty_string_is_absent
      [where rt = strict_rt and s = shelter and sp = None and sz = None and q = None]
    list_pets_shelter_all
  by simp

subsection \<open>The claim on GET /test\<close>

lemma take_ascii: "take n (ascii s) = ascii (take n s)"
  by (simp add: ascii_def take_map)

lemma take_50_refused:
  "take 50 ''localhost:27017: [Errno 111] Connection refused, Timeout: 30s, Topology Description'' =
   ''localhost:27017: [Errno 111] Connection refused, T''"
  by simp

text \<open>
  C7. In every state of the store, \<^verbatim>\<open>test_database\<close> returns its report and raises
  nothing. When listing the collections raises, the field \<^verbatim>\<open>database\<close> of the report is
  a fixed prefix followed by the text of the exception cut to its first 50 characters; when
  reading the handle's name raises, the same with the other prefix.
\<close>

theorem test_database_absorbs_failures:
  "snd (test_database drv env db) = None \<and>
   (\<forall>s e. db = Some s \<and> (\<forall>x. getattr_name drv s \<noteq> AttrRaises x) \<and>
           list_collection_names drv s = Inl e \<longrightarrow>
      (\<exists>msg. database (fst (test_database drv env db)) =
                warning_sign @ ascii ''  Connected but Error: '' @ msg \<and>
             msg = take 50 (str e) \<and> length msg \<le> 50)) \<and>
   (\<forall>s e. db = Some s \<and> getattr_name drv s = AttrRaises e \<longrightarrow>
      (\<exists>msg. database (fst (test_database drv env db)) =
                cross_mark @ ascii '' Error: '' @ msg \<and>
             msg = take 50 (str e) \<and> length msg \<le> 50))"
proof (intro conjI allI impI)
  show "snd (test_database drv env db) = None"
    by (simp add: test_database_def probe_db_def probe_collections_def try_except_def Let_def
        split: option.splits attr_result.splits sum.splits prod.splits)
next
  fix s e
  assume "db = Some s \<and> (\<forall>x. getattr_name drv s \<noteq> AttrRaises x) \<and>
           list_collection_names drv s = Inl e"
  then have "database (fst (test_database drv env db)) =
                warning_sign @ ascii ''  Connected but Error: '' @ take 50 (str e)"
    by (cases "getattr_name drv s")
       (simp_all add: test_database_def probe_db_def probe_collections_def try_except_def Let_def)
  then show "\<exists>msg. database (fst (test_database drv env db)) =
                warning_sign @ ascii ''  Connected but Error: '' @ msg \<and>
             msg = take 50 (str e) \<and> length msg \<le> 50"
    by simp
next
  fix s e
  assume "db = Some s \<and> getattr_name drv s = AttrRaises e"
  then have "database (fst (test_database drv env db)) =
                cross_mark @ ascii '' Error: '' @ take 50 (str e)"
    by (simp add: test_database_def probe_db_def try_except_def Let_def)
  then show "\<exists>msg. database (fst (test_database drv env db)) =
                cross_mark @ ascii '' Error: '' @ msg \<and>
             msg = take 50 (str e) \<and> length msg \<le> 50"
    by simp
qed

theorem test_database_absorbs_failures_witness:
  "snd (test_database down_driver no_env (Some shelter)) = None \<and>
   database (fst (test_database down_driver no_env (Some shelter))) =
     warning_sign @ ascii ''  Connected but Error: '' @
       ascii ''localhost:27017: [Errno 111] Connection refused, T'' \<and>
   length (ascii ''localhost:27017: [Errno 111] Connection refused, T'') = 50 \<and>
   snd (test_database broken_driver no_env (Some shelter)) = None \<and>
   database (fst (test_database broken_driver no_env (Some shelter))) =
     cross_mark @ ascii '' Error: '' @ ascii ''handle closed''"
proof -
  let ?long = "Exception (ascii
    ''localhost:27017: [Errno 111] Connection refused, Timeout: 30s, Topology Description'')"
  have h1: "Some shelter = Some shelter \<and> (\<forall>x. getattr_name down_driver shelter \<noteq> AttrRaises x) \<and>
           list_collection_names down_driver shelter = Inl ?long"
    by (simp add: down_driver_def)
  have h2: "Some shelter = Some shelter \<and>
            getattr_name broken_driver shelter = AttrRaises (Exception (ascii ''handle closed''))"
    by (simp add: broken_driver_def)
  have t1: "take 50 (str ?long) = ascii ''localhost:27017: [Errno 111] Connection refused, T''"
    by (simp only: exn.sel take_ascii take_50_refused)
  have t2: "take 50 (str (Exception (ascii ''handle closed''))) = ascii ''handle closed''"
    by (simp add: take_ascii)
  have len: "length (ascii ''localhost:27017: [Errno 111] Connection refused, T'') = 50"
    by (simp add: ascii_def)
  from test_database_absorbs_failures [of down_driver no_env "Some shelter"] h1
  have a: "snd (test_database down_driver no_env (Some shelter)) = None"
    and b: "database (fst (test_database down_driver no_env (Some shelter))) =
              warning_sign @ ascii ''  Connected but Error: '' @ take 50 (str ?long)"
    by blast+
  from test_database_absorbs_failures [of broken_driver no_env "Some shelter"] h2
  have c: "snd (test_database broken_driver no_env (Some shelter)) = None"
    and d: "database (fst (test_database broken_driver no_env (Some shelter))) =
              cross_mark @ ascii '' Error: '' @ take 50 (str (Exception (ascii ''handle closed'')))"
    by blast+
  from a b c d len show ?thesis by (simp only: t1 t2) 
qed

end
